theory Spec2Isabelle
  imports Complex_Main "HOL-Library.Product_Lexorder"
begin

section \<open>Conventions of the embedding\<close>

text \<open>
  The Python sources \<^verbatim>\<open>skinner/utils.py\<close> and \<^verbatim>\<open>skinner/core.py\<close> are embedded
  function by function. Every \<^verbatim>\<open>raise\<close>, failed \<^verbatim>\<open>assert\<close> and failing builtin is a value
  \<open>Inl e\<close> of the result type \<open>error + 'a\<close>.
\<close>

datatype error =
    IndexError
  | ValueError
  | AssertionError
  | TypeError
  | ImportError
  | ZeroDivisionError
  | PyException
  | LibraryError

text \<open>Running a fallible function over a list, stopping at the first error.\<close>

fun mapE :: "('a \<Rightarrow> error + 'b) \<Rightarrow> 'a list \<Rightarrow> error + 'b list" where
  "mapE f [] = Inr []"
| "mapE f (x # xs) =
     (case f x of
        Inl e \<Rightarrow> Inl e
      | Inr y \<Rightarrow> (case mapE f xs of Inl e \<Rightarrow> Inl e | Inr ys \<Rightarrow> Inr (y # ys)))"

text \<open>\<^verbatim>\<open>xs[i]\<close> for a non-negative index.\<close>

definition py_get :: "'a list \<Rightarrow> nat \<Rightarrow> error + 'a" where
  "py_get xs i = (if i < length xs then Inr (xs ! i) else Inl IndexError)"

text \<open>\<^verbatim>\<open>xs.index(x)\<close>: the first position of \<open>x\<close>, \<^verbatim>\<open>ValueError\<close> when absent.\<close>

fun index_of :: "'a list \<Rightarrow> 'a \<Rightarrow> nat" where
  "index_of [] x = 0"
| "index_of (y # ys) x = (if y = x then 0 else Suc (index_of ys x))"

definition py_index :: "'a list \<Rightarrow> 'a \<Rightarrow> error + nat" where
  "py_index xs x = (if x \<in> set xs then Inr (index_of xs x) else Inl ValueError)"

section \<open>Floating-point values\<close>

text \<open>
  A float is a finite number, an infinity or nan. The rounding of the format, from the
  exact result of an operation on finite operands to the float that is returned
  (an infinity on overflow), is the parameter \<open>rnd\<close> of every function that computes;
  nothing is assumed of it here. The operations follow IEEE 754 on the special values.
  The sign of a zero is not kept: a zero divisor counts as \<open>+0.0\<close>.
\<close>

datatype fl = Fin real | PInf | NInf | NaN

type_synonym rounding = "real \<Rightarrow> fl"

text \<open>The rounding of a format in which every result is representable.\<close>

definition exact :: rounding where
  "exact x = Fin x"

fun fneg :: "fl \<Rightarrow> fl" where
  "fneg (Fin x) = Fin (- x)"
| "fneg PInf = NInf"
| "fneg NInf = PInf"
| "fneg NaN = NaN"

fun fadd :: "rounding \<Rightarrow> fl \<Rightarrow> fl \<Rightarrow> fl" where
  "fadd rnd (Fin x) (Fin y) = rnd (x + y)"
| "fadd rnd NaN b = NaN"
| "fadd rnd a NaN = NaN"
| "fadd rnd PInf NInf = NaN"
| "fadd rnd NInf PInf = NaN"
| "fadd rnd PInf b = PInf"
| "fadd rnd a PInf = PInf"
| "fadd rnd NInf b = NInf"
| "fadd rnd a NInf = NInf"

definition fsub :: "rounding \<Rightarrow> fl \<Rightarrow> fl \<Rightarrow> fl" where
  "fsub rnd a b = fadd rnd a (fneg b)"

text \<open>The sign of a float that is not nan: \<open>-1\<close>, \<open>0\<close> or \<open>1\<close>.\<close>

fun fsign :: "fl \<Rightarrow> real" where
  "fsign (Fin x) = sgn x"
| "fsign PInf = 1"
| "fsign NInf = - 1"
| "fsign NaN = 0"

definition signedInf :: "real \<Rightarrow> fl" where
  "signedInf s = (if s = 0 then NaN else if 0 < s then PInf else NInf)"

fun fmul :: "rounding \<Rightarrow> fl \<Rightarrow> fl \<Rightarrow> fl" where
  "fmul rnd (Fin x) (Fin y) = rnd (x * y)"
| "fmul rnd NaN b = NaN"
| "fmul rnd a NaN = NaN"
| "fmul rnd a b = signedInf (fsign a * fsign b)"

text \<open>
  Division as numpy does it: a finite number by zero is an infinity of its sign, zero
  by zero is nan, and nothing is raised.
\<close>

fun fdiv :: "rounding \<Rightarrow> fl \<Rightarrow> fl \<Rightarrow> fl" where
  "fdiv rnd (Fin x) (Fin y) = (if y = 0 then signedInf (sgn x) else rnd (x / y))"
| "fdiv rnd NaN b = NaN"
| "fdiv rnd a NaN = NaN"
| "fdiv rnd (Fin x) b = Fin 0"
| "fdiv rnd a (Fin y) = signedInf (fsign a * (if y < 0 then - 1 else 1))"
| "fdiv rnd a b = NaN"

text \<open>The comparisons \<^verbatim>\<open><\<close>, \<^verbatim>\<open>>\<close> and \<^verbatim>\<open>>=\<close>: false whenever an operand is nan.\<close>

fun flt :: "fl \<Rightarrow> fl \<Rightarrow> bool" where
  "flt NaN b = False"
| "flt a NaN = False"
| "flt (Fin x) (Fin y) = (x < y)"
| "flt a NInf = False"
| "flt NInf b = True"
| "flt PInf b = False"
| "flt a PInf = True"

definition fgt :: "fl \<Rightarrow> fl \<Rightarrow> bool" where
  "fgt a b = flt b a"

fun fge :: "fl \<Rightarrow> fl \<Rightarrow> bool" where
  "fge NaN b = False"
| "fge a NaN = False"
| "fge a b = (\<not> flt a b)"

text \<open>
  \<^verbatim>\<open>sum(xs)\<close> adds from the left, starting from the integer 0, to which the first entry
  is added without rounding.
\<close>

fun fsum :: "rounding \<Rightarrow> fl list \<Rightarrow> fl" where
  "fsum rnd [] = Fin 0"
| "fsum rnd (x # xs) = foldl (fadd rnd) x xs"

text \<open>
  \<^verbatim>\<open>min(xs)\<close> and \<^verbatim>\<open>max(xs)\<close>: \<^verbatim>\<open>ValueError\<close> on the empty list, otherwise the first entry
  unless a later one compares smaller (larger), so that nan is returned only when it
  is the first entry. \<^verbatim>\<open>xs.index(x)\<close> finds the first entry that is \<open>x\<close> itself or equal to
  it; for the result of \<^verbatim>\<open>min\<close> or \<^verbatim>\<open>max\<close> that is the first entry of the same value.
\<close>

fun py_min :: "fl list \<Rightarrow> error + fl" where
  "py_min [] = Inl ValueError"
| "py_min (x # xs) = Inr (foldl (\<lambda>best item. if flt item best then item else best) x xs)"

fun py_max :: "fl list \<Rightarrow> error + fl" where
  "py_max [] = Inl ValueError"
| "py_max (x # xs) = Inr (foldl (\<lambda>best item. if fgt item best then item else best) x xs)"

section \<open>utils.normalizeToOne\<close>

text \<open>
  \<^verbatim>\<open>
  def normalizeToOne(vals):
      if sum(vals) == 1.0:
          return vals
      normed = [float(val)/sum(vals) for val in vals]
      normSum = sum(normed)
      if normSum != 1.0:
          minIndex = normed.index(min(normed))
          normBuffer = normed[:]
          normBuffer.pop(minIndex)
          sumAllButMin = sum(normBuffer)
          newMinVal = 1.0 - sumAllButMin
          if newMinVal >= 0.0:
              normed[minIndex] = newMinVal
          else:
              normed[minIndex] = 0.0
              maxIndex = normed.index(max(normed))
              normed[maxIndex] += newMinVal
      return normed
  \<close>
  The entries are Python floats or numpy scalars, and the division differs: by a zero
  sum Python raises \<^verbatim>\<open>ZeroDivisionError\<close>, numpy returns an infinity or nan and goes on.
  Which of the two the entries are is the parameter \<open>kind\<close>.
\<close>

datatype scalars = PyFloats | NumpyScalars

definition scalar_div :: "rounding \<Rightarrow> scalars \<Rightarrow> fl \<Rightarrow> fl \<Rightarrow> error + fl" where
  "scalar_div rnd kind a b =
     (if kind = PyFloats \<and> b = Fin 0 then Inl ZeroDivisionError else Inr (fdiv rnd a b))"

definition fixResidual :: "rounding \<Rightarrow> fl list \<Rightarrow> error + fl list" where
  "fixResidual rnd normed =
     (case py_min normed of
        Inl e \<Rightarrow> Inl e
      | Inr m \<Rightarrow>
         (case py_index normed m of
            Inl e \<Rightarrow> Inl e
          | Inr minIndex \<Rightarrow>
             (let normBuffer = take minIndex normed @ drop (Suc minIndex) normed;
                  sumAllButMin = fsum rnd normBuffer;
                  newMinVal = fsub rnd (Fin 1) sumAllButMin
              in if fge newMinVal (Fin 0) then Inr (normed[minIndex := newMinVal])
                 else
                   (let normed0 = normed[minIndex := Fin 0]
                    in case py_max normed0 of
                         Inl e \<Rightarrow> Inl e
                       | Inr mx \<Rightarrow>
                          (case py_index normed0 mx of
                             Inl e \<Rightarrow> Inl e
                           | Inr maxIndex \<Rightarrow>
                               Inr (normed0[maxIndex :=
                                      fadd rnd (normed0 ! maxIndex) newMinVal]))))))"

definition normalizeToOne :: "rounding \<Rightarrow> scalars \<Rightarrow> fl list \<Rightarrow> error + fl list" where
  "normalizeToOne rnd kind vals =
     (if fsum rnd vals = Fin 1 then Inr vals
      else
        case mapE (\<lambda>val. scalar_div rnd kind val (fsum rnd vals)) vals of
          Inl e \<Rightarrow> Inl e
        | Inr normed \<Rightarrow>
            (let normSum = fsum rnd normed
             in if normSum \<noteq> Fin 1 then fixResidual rnd normed else Inr normed))"

section \<open>utils.transposeWeights\<close>

text \<open>
  \<^verbatim>\<open>
  def transposeWeights(skinChunkWeights, skinChunkInfNames, skinClusterInfNames):
      assert len(skinChunkWeights[0]) == len(skinChunkInfNames), ...
      missingSkinChunk = [name for name in skinChunkInfNames if name not in skinClusterInfNames]
      assert not missingSkinChunk, ...
      missingSkinCluster = [name for name in skinChunkInfNames if name not in skinChunkInfNames]
      assert not missingSkinCluster, ...
      ret = []
      for chunkWeights in skinChunkWeights:
          transposed = []
          for skinClusterInf in skinClusterInfNames:
              if skinClusterInf in skinChunkInfNames:
                  chunkIndex = skinChunkInfNames.index(skinClusterInf)
                  transposed.append(chunkWeights[chunkIndex])
              else:
                  transposed.append(0)
          ret.append(transposed)
      return ret
  \<close>
\<close>

definition transposeEntry :: "real list \<Rightarrow> string list \<Rightarrow> string \<Rightarrow> error + real" where
  "transposeEntry chunkWeights skinChunkInfNames skinClusterInf =
     (if skinClusterInf \<in> set skinChunkInfNames then
        (case py_index skinChunkInfNames skinClusterInf of
           Inl e \<Rightarrow> Inl e
         | Inr chunkIndex \<Rightarrow> py_get chunkWeights chunkIndex)
      else Inr 0)"

definition transposeRow :: "string list \<Rightarrow> string list \<Rightarrow> real list \<Rightarrow> error + real list" where
  "transposeRow skinChunkInfNames skinClusterInfNames chunkWeights =
     mapE (transposeEntry chunkWeights skinChunkInfNames) skinClusterInfNames"

definition transposeWeights ::
  "real list list \<Rightarrow> string list \<Rightarrow> string list \<Rightarrow> error + real list list" where
  "transposeWeights skinChunkWeights skinChunkInfNames skinClusterInfNames =
     (case skinChunkWeights of
        [] \<Rightarrow> Inl IndexError
      | w0 # _ \<Rightarrow>
         if length w0 \<noteq> length skinChunkInfNames then Inl AssertionError
         else
           (let missingSkinChunk =
                  filter (\<lambda>name. name \<notin> set skinClusterInfNames) skinChunkInfNames
            in if missingSkinChunk \<noteq> [] then Inl AssertionError
               else
                 (let missingSkinCluster =
                        filter (\<lambda>name. name \<notin> set skinChunkInfNames) skinChunkInfNames
                  in if missingSkinCluster \<noteq> [] then Inl AssertionError
                     else mapE (transposeRow skinChunkInfNames skinClusterInfNames)
                            skinChunkWeights)))"

section \<open>utils.getVertNeighborSamples\<close>

text \<open>
  \<^verbatim>\<open>
  def getVertNeighborSamples(meshShape, neighborSamples):
      vertNeighbors = {}
      totalMeshVerts = mc.polyEvaluate(meshShape, vertex=True)
      step = int(totalMeshVerts/neighborSamples)
      if step == 0:
          step = totalMeshVerts-1
      for i in range(0, totalMeshVerts, step):
          vertNeighbors[i] = getConnectedVertIDs('%s.vtx[%s]'%(meshShape, i))
      return vertNeighbors
  \<close>
  The mesh is the host application's: its vertex count \<open>totalMeshVerts\<close> (a natural
  number) and its adjacency query \<open>getConnectedVertIDs\<close> are parameters. \<^verbatim>\<open>int(a/b)\<close>
  truncates the quotient towards zero. The dictionary is the list of its items in
  insertion order; the keys are distinct because a range is.
\<close>

definition truncDiv :: "int \<Rightarrow> int \<Rightarrow> error + int" where
  "truncDiv a b =
     (if b = 0 then Inl ZeroDivisionError
      else Inr (sgn a * sgn b * (\<bar>a\<bar> div \<bar>b\<bar>)))"

definition sampleStep :: "nat \<Rightarrow> int \<Rightarrow> error + int" where
  "sampleStep totalMeshVerts neighborSamples =
     (case truncDiv (int totalMeshVerts) neighborSamples of
        Inl e \<Rightarrow> Inl e
      | Inr step \<Rightarrow> Inr (if step = 0 then int totalMeshVerts - 1 else step))"

text \<open>\<^verbatim>\<open>range(0, stop, step)\<close> for \<open>stop \<ge> 0\<close>: empty for a negative step.\<close>

definition py_range0 :: "nat \<Rightarrow> int \<Rightarrow> error + nat list" where
  "py_range0 stop step =
     (if step = 0 then Inl ValueError
      else if step < 0 then Inr []
      else Inr (map (\<lambda>k. k * nat step) [0 ..< (stop + nat step - 1) div nat step]))"

definition sampleIndices :: "nat \<Rightarrow> int \<Rightarrow> error + nat list" where
  "sampleIndices totalMeshVerts neighborSamples =
     (case sampleStep totalMeshVerts neighborSamples of
        Inl e \<Rightarrow> Inl e
      | Inr step \<Rightarrow> py_range0 totalMeshVerts step)"

definition getVertNeighborSamples ::
  "(nat \<Rightarrow> nat list) \<Rightarrow> nat \<Rightarrow> int \<Rightarrow> error + (nat \<times> nat list) list" where
  "getVertNeighborSamples getConnectedVertIDs totalMeshVerts neighborSamples =
     (case sampleIndices totalMeshVerts neighborSamples of
        Inl e \<Rightarrow> Inl e
      | Inr idxs \<Rightarrow> Inr (map (\<lambda>i. (i, getConnectedVertIDs i)) idxs))"

section \<open>core.closestPointBruteForce and core.closestPointKdTree\<close>

text \<open>
  Positions are rows of an \<^verbatim>\<open>ndarray[n][3]\<close>, normals are \<^verbatim>\<open>om2.MVector\<close>s; both are
  triples of reals. \<^verbatim>\<open>np.linalg.norm(point-targPoint)\<close> is the Euclidean distance and
  \<^verbatim>\<open>MVector * MVector\<close> is the dot product.
\<close>

type_synonym point = "real \<times> real \<times> real"
type_synonym MVector = "real \<times> real \<times> real"

fun linalg_norm_diff :: "point \<Rightarrow> point \<Rightarrow> real" where
  "linalg_norm_diff (x1, y1, z1) (x2, y2, z2) =
     sqrt ((x1 - x2)\<^sup>2 + (y1 - y2)\<^sup>2 + (z1 - z2)\<^sup>2)"

fun dot :: "MVector \<Rightarrow> MVector \<Rightarrow> real" where
  "dot (x1, y1, z1) (x2, y2, z2) = x1 * x2 + y1 * y2 + z1 * z2"

text \<open>
  \<^verbatim>\<open>
  def closestPointBruteForce(points, targets, numNeighbors):
      distances = []
      indexes = []
      if len(targets) < numNeighbors:
          numNeighbors = len(targets)
      for i,point in enumerate(points):
          distIndices = []
          for j, targPoint in enumerate(targets):
              dist = np.linalg.norm(point-targPoint)
              distIndices.append([dist, j])
          distIndices = sorted(distIndices)
          trim = numNeighbors
          if len(distIndices) < trim:
              trim = len(distIndices)
          theseDist = []
          theseIndexes = []
          for k in range(trim):
              theseDist.append(distIndices[k][0])
              theseIndexes.append(distIndices[k][1])
          distances.append(theseDist)
          indexes.append(theseIndexes)
      return np.array(distances), np.array(indexes)
  \<close>
  \<^verbatim>\<open>sorted\<close> compares the two-element lists \<^verbatim>\<open>[dist, j]\<close> lexicographically, which is
  the order of pairs; the pairs are pairwise different (their \<open>j\<close> are), so the sorted
  list is unique. \<^verbatim>\<open>range(trim)\<close> is empty for \<open>trim \<le> 0\<close>.
\<close>

type_synonym knnResult = "real list list \<times> nat list list"

definition bruteForceRow :: "point list \<Rightarrow> int \<Rightarrow> point \<Rightarrow> (real \<times> nat) list" where
  "bruteForceRow targets numNeighbors point =
     (let distIndices = map (\<lambda>(j, targPoint). (linalg_norm_diff point targPoint, j))
                            (enumerate 0 targets);
          distIndices = sort distIndices;
          trim = (if int (length distIndices) < numNeighbors then int (length distIndices)
                  else numNeighbors)
      in take (nat trim) distIndices)"

definition closestPointBruteForce :: "point list \<Rightarrow> point list \<Rightarrow> int \<Rightarrow> error + knnResult" where
  "closestPointBruteForce points targets numNeighbors =
     (let numNeighbors = (if int (length targets) < numNeighbors then int (length targets)
                          else numNeighbors);
          rows = map (bruteForceRow targets numNeighbors) points
      in Inr (map (map fst) rows, map (map snd) rows))"





section \<open>core.closestNeighborsWeights\<close>

text \<open>
  The blend-weight argument is an array of floats in every documented call. The source
  tests it with \<^verbatim>\<open>isinstance(allSavedBlendWeights, type(np.array))\<close>; \<^verbatim>\<open>np.array\<close> is a
  builtin function, so \<^verbatim>\<open>type(np.array)\<close> is the class of builtin functions and methods
  and the test holds for such an object only. On one, the \<^verbatim>\<open>len\<close> inside the assertion
  raises \<^verbatim>\<open>TypeError\<close>.
  \<^verbatim>\<open>
  useBlendWeights = False
  if isinstance(allSavedBlendWeights, type(np.array)):
      assert len(allSavedWeights) == len(allSavedBlendWeights), ...
      useBlendWeights = True
  \<close>
\<close>

datatype blendArg = FloatArray "real list" | BuiltinFunctionOrMethod

fun isinstance_type_np_array :: "blendArg \<Rightarrow> bool" where
  "isinstance_type_np_array (FloatArray _) = False"
| "isinstance_type_np_array BuiltinFunctionOrMethod = True"

fun py_len :: "blendArg \<Rightarrow> error + nat" where
  "py_len (FloatArray xs) = Inr (length xs)"
| "py_len BuiltinFunctionOrMethod = Inl TypeError"

fun blend_get :: "blendArg \<Rightarrow> nat \<Rightarrow> error + real" where
  "blend_get (FloatArray xs) i = py_get xs i"
| "blend_get BuiltinFunctionOrMethod i = Inl TypeError"

definition checkBlendWeights :: "real list list \<Rightarrow> blendArg \<Rightarrow> error + bool" where
  "checkBlendWeights allSavedWeights allSavedBlendWeights =
     (if isinstance_type_np_array allSavedBlendWeights then
        (case py_len allSavedBlendWeights of
           Inl e \<Rightarrow> Inl e
         | Inr n \<Rightarrow> if length allSavedWeights = n then Inr True else Inl AssertionError)
      else Inr False)"

text \<open>An entry of \<^verbatim>\<open>newBlendWeights\<close>: a scalar, or what \<^verbatim>\<open>np.sum(..., axis=0)\<close> returns.\<close>

datatype blendEntry = BlendScalar real | BlendVector "fl list"

text \<open>
  The returned dictionary. The saved weights and the distances and indices of the
  nearest-neighbour functions are finite numbers; rows that \<open>closestNeighborsWeights\<close>
  computes are rows of floats and may hold nan.
\<close>

record 'w resampled =
  weights :: "'w list list"
  blendWeights :: "blendEntry list"

text \<open>
  The scan of the ordered candidates of one vert, lines 482 to 503:
  \<^verbatim>\<open>
  for j in range(0, len(distancesArr[i])):
      if len(closestIndices) >= closestNeighborCount:
          break
      checkIndex = indexArr[i][j]
      checkDist = distancesArr[i][j]
      if checkDist > searchDist and not filterByVertNormal:
          break
      normalReject = False
      if filterByVertNormal:
          dot = importVertNormals[i] * savedVertNormals[checkIndex]
          if dot < vertNormalTolerance:
              normalReject = True
      if not normalReject:
          closestIndices.append(checkIndex)
          closestDistances.append(checkDist)
      else:
          rejectedIndices.append(checkIndex)
          rejectedDistnaces.append(checkDist)
  \<close>
\<close>

record pool =
  closestIndices :: "nat list"
  closestDistances :: "real list"
  rejectedIndices :: "nat list"
  rejectedDistnaces :: "real list"

definition emptyPool :: pool where
  "emptyPool = \<lparr>closestIndices = [], closestDistances = [],
                rejectedIndices = [], rejectedDistnaces = []\<rparr>"

record scanArgs =
  importVertNormals_of :: "MVector list"
  savedVertNormals_of :: "MVector list"
  closestNeighborCount_of :: int
  filterByVertNormal_of :: bool
  vertNormalTolerance_of :: real
  distancesArr_of :: "real list list"
  indexArr_of :: "nat list list"

fun poolScan :: "scanArgs \<Rightarrow> nat \<Rightarrow> fl \<Rightarrow> nat list \<Rightarrow> pool \<Rightarrow> error + pool" where
  "poolScan a i searchDist [] p = Inr p"
| "poolScan a i searchDist (j # js) p =
     (if int (length (closestIndices p)) \<ge> closestNeighborCount_of a then Inr p
      else
        case py_get (indexArr_of a) i of Inl e \<Rightarrow> Inl e | Inr indexRow \<Rightarrow>
        case py_get indexRow j of Inl e \<Rightarrow> Inl e | Inr checkIndex \<Rightarrow>
        case py_get (distancesArr_of a) i of Inl e \<Rightarrow> Inl e | Inr distRow \<Rightarrow>
        case py_get distRow j of Inl e \<Rightarrow> Inl e | Inr checkDist \<Rightarrow>
          if fgt (Fin checkDist) searchDist \<and> \<not> filterByVertNormal_of a then Inr p
          else
            case (if filterByVertNormal_of a then
                    (case py_get (importVertNormals_of a) i of Inl e \<Rightarrow> Inl e | Inr n \<Rightarrow>
                     case py_get (savedVertNormals_of a) checkIndex of Inl e \<Rightarrow> Inl e | Inr m \<Rightarrow>
                       Inr (dot n m < vertNormalTolerance_of a))
                  else Inr False) of
              Inl e \<Rightarrow> Inl e
            | Inr normalReject \<Rightarrow>
                if \<not> normalReject then
                  poolScan a i searchDist js
                    (p\<lparr>closestIndices := closestIndices p @ [checkIndex],
                       closestDistances := closestDistances p @ [checkDist]\<rparr>)
                else
                  poolScan a i searchDist js
                    (p\<lparr>rejectedIndices := rejectedIndices p @ [checkIndex],
                       rejectedDistnaces := rejectedDistnaces p @ [checkDist]\<rparr>))"

text \<open>
  The fallback to the rejected candidates, lines 505 to 510. The source fills
  \<^verbatim>\<open>closestDistances\<close> from \<^verbatim>\<open>rejectedIndices\<close>, and so does the model.
  \<^verbatim>\<open>
  if not closestIndices and filterByVertNormal:
      maxIndex = min([closestNeighborCount, len(rejectedIndices)])
      closestIndices = rejectedIndices[:maxIndex]
      closestDistances = rejectedIndices[:maxIndex]
  \<close>
  \<^verbatim>\<open>xs[:m]\<close> drops from the end for a negative \<open>m\<close>.
\<close>

definition py_slice_to :: "'a list \<Rightarrow> int \<Rightarrow> 'a list" where
  "py_slice_to xs m = (if m < 0 then take (nat (int (length xs) + m)) xs else take (nat m) xs)"

definition rejectedFallback :: "scanArgs \<Rightarrow> pool \<Rightarrow> nat list \<times> real list" where
  "rejectedFallback a p =
     (if closestIndices p = [] \<and> filterByVertNormal_of a then
        (let maxIndex = min (closestNeighborCount_of a) (int (length (rejectedIndices p)))
         in (py_slice_to (rejectedIndices p) maxIndex,
             map real (py_slice_to (rejectedIndices p) maxIndex)))
      else (closestIndices p, closestDistances p))"

text \<open>
  The blend of a pool that has not exactly one member, lines 533 to 576:
  \<^verbatim>\<open>
  closesetIndexWeights = [allSavedWeights[int(index)] for index in closestIndices]
  if not any(closestDistances):
      avg = 1.0 / len(closestDistances)
      closestDistances = [avg for i in range(len(closestDistances))]
  normalizedDistances = utils.normalizeToOne(closestDistances)
  normalizedDistances.reverse()
  weightByDist = []
  for weightListIndex,weightList in enumerate(closesetIndexWeights):
      wbd = [weight*normalizedDistances[weightListIndex] for weight in weightList]
      weightByDist.append( wbd )
  sumedWeights = np.sum(weightByDist, axis=0)
  normalizedWeights = utils.normalizeToOne(sumedWeights)
  newWeights.append(normalizedWeights)
  if useBlendWeights:
      weightByDist = []
      for weightListIndex,weight in enumerate(closesetIndexWeights):
          weightByDist.append( weight*normalizedDistances[weightListIndex]  )
      sumedWeights = np.sum(weightByDist, axis=0)
      newBlendWeights.append(sumedWeights)
  \<close>
  \<^verbatim>\<open>1.0 / len(...)\<close> divides Python numbers and raises on the empty pool; the list of
  averages is a list of Python floats, every other list handed to \<^verbatim>\<open>normalizeToOne\<close> holds
  numpy scalars (distances, indices, or the entries of an array).
  \<^verbatim>\<open>np.sum(rows, axis=0)\<close> adds the rows column by column, one row after the other, and
  refuses rows of different lengths. Of an empty list it is the scalar 0.0, on which the
  \<^verbatim>\<open>sum(vals)\<close> that follows in \<^verbatim>\<open>normalizeToOne\<close> raises \<^verbatim>\<open>TypeError\<close>; the pool is never
  empty at that point, the division above having raised. \<open>closesetIndexWeights\<close> and
  \<open>normalizedDistances\<close> both have the length of the pool, so the enumeration is a zip.
  The blend-weight branch iterates over the weight rows again, not over blend weights.
\<close>

definition np_sum_axis0 :: "rounding \<Rightarrow> fl list list \<Rightarrow> error + fl list" where
  "np_sum_axis0 rnd rows =
     (case rows of
        [] \<Rightarrow> Inl TypeError
      | r # rs \<Rightarrow>
          if \<forall>x \<in> set rs. length x = length r
          then Inr (foldl (\<lambda>acc row. map2 (fadd rnd) acc row) r rs)
          else Inl ValueError)"

definition scaleRows :: "rounding \<Rightarrow> real list list \<Rightarrow> fl list \<Rightarrow> fl list list" where
  "scaleRows rnd closesetIndexWeights normalizedDistances =
     map2 (\<lambda>weightList nd. map (\<lambda>weight. fmul rnd (Fin weight) nd) weightList)
          closesetIndexWeights normalizedDistances"

definition poolDistances :: "rounding \<Rightarrow> real list \<Rightarrow> error + (scalars \<times> fl list)" where
  "poolDistances rnd closestDistances' =
     (if \<forall>d \<in> set closestDistances'. d = 0 then
        (if closestDistances' = [] then Inl ZeroDivisionError
         else Inr (PyFloats, replicate (length closestDistances')
                               (rnd (1 / real (length closestDistances')))))
      else Inr (NumpyScalars, map Fin closestDistances'))"

definition blendPool ::
  "rounding \<Rightarrow> real list list \<Rightarrow> bool \<Rightarrow> nat list \<Rightarrow> real list
     \<Rightarrow> error + (fl list \<times> blendEntry list)" where
  "blendPool rnd allSavedWeights useBlendWeights closestIndices' closestDistances' =
     (case mapE (py_get allSavedWeights) closestIndices' of
        Inl e \<Rightarrow> Inl e
      | Inr closesetIndexWeights \<Rightarrow>
        case poolDistances rnd closestDistances' of
          Inl e \<Rightarrow> Inl e
        | Inr (kind, closestDistances'') \<Rightarrow>
          case normalizeToOne rnd kind closestDistances'' of
            Inl e \<Rightarrow> Inl e
          | Inr normalized \<Rightarrow>
            (let normalizedDistances = rev normalized;
                 weightByDist = scaleRows rnd closesetIndexWeights normalizedDistances
             in case np_sum_axis0 rnd weightByDist of
                  Inl e \<Rightarrow> Inl e
                | Inr sumedWeights \<Rightarrow>
                  case normalizeToOne rnd NumpyScalars sumedWeights of
                    Inl e \<Rightarrow> Inl e
                  | Inr normalizedWeights \<Rightarrow>
                      if useBlendWeights then
                        (case np_sum_axis0 rnd
                                (scaleRows rnd closesetIndexWeights normalizedDistances) of
                           Inl e \<Rightarrow> Inl e
                         | Inr s \<Rightarrow> Inr (normalizedWeights, [BlendVector s]))
                      else Inr (normalizedWeights, [])))"

text \<open>
  One pass of the loop over the import verts, lines 473 to 576: the row appended to
  \<^verbatim>\<open>newWeights\<close> and the entries appended to \<^verbatim>\<open>newBlendWeights\<close>.
  \<^verbatim>\<open>
  searchDist = distancesArr[i][0] * closestNeighborDistMult
  ...
  numCloseIndices = len(closestIndices)
  if numCloseIndices == 1:
      newWeights.append(allSavedWeights[int(closestIndices[0])])
      if useBlendWeights:
          newBlendWeights.append(allSavedBlendWeights[int(closestIndices[0])])
  else:
      ...
  \<close>
\<close>

definition vertPool ::
  "rounding \<Rightarrow> scanArgs \<Rightarrow> real \<Rightarrow> nat \<Rightarrow> error + (nat list \<times> real list)" where
  "vertPool rnd a closestNeighborDistMult i =
     (case py_get (distancesArr_of a) i of Inl e \<Rightarrow> Inl e | Inr distRow \<Rightarrow>
      case py_get distRow 0 of Inl e \<Rightarrow> Inl e | Inr d0 \<Rightarrow>
        (let searchDist = fmul rnd (Fin d0) (Fin closestNeighborDistMult)
         in case poolScan a i searchDist [0 ..< length distRow] emptyPool of
              Inl e \<Rightarrow> Inl e
            | Inr p \<Rightarrow> Inr (rejectedFallback a p)))"

definition vertWeights ::
  "rounding \<Rightarrow> real list list \<Rightarrow> blendArg \<Rightarrow> bool \<Rightarrow> scanArgs \<Rightarrow> real \<Rightarrow> nat
     \<Rightarrow> error + (fl list \<times> blendEntry list)" where
  "vertWeights rnd allSavedWeights allSavedBlendWeights useBlendWeights a
       closestNeighborDistMult i =
     (case vertPool rnd a closestNeighborDistMult i of
        Inl e \<Rightarrow> Inl e
      | Inr (closestIndices', closestDistances') \<Rightarrow>
          if length closestIndices' = 1 then
            (case py_get allSavedWeights (closestIndices' ! 0) of
               Inl e \<Rightarrow> Inl e
             | Inr row \<Rightarrow>
                 if useBlendWeights then
                   (case blend_get allSavedBlendWeights (closestIndices' ! 0) of
                      Inl e \<Rightarrow> Inl e
                    | Inr b \<Rightarrow> Inr (map Fin row, [BlendScalar b]))
                 else Inr (map Fin row, []))
          else blendPool rnd allSavedWeights useBlendWeights closestIndices' closestDistances')"

text \<open>
  The function itself. \<^verbatim>\<open>closestPointFunc\<close> is the caller's nearest-neighbour function,
  \<open>None\<close> selecting \<^verbatim>\<open>closestPointBruteForce\<close>.
  \<^verbatim>\<open>
  if importVertNormals:
      assert len(importVertNormals) == len(importVertPositions), ...
  if filterByVertNormal and not importVertNormals:
      raise Exception("importByVertNormal=True, but importVertNormals is empty.")
  (the blend-weight test above)
  if closestPointFunc is None:
      closestPointFunc = closestPointBruteForce
  newWeights = []
  newBlendWeights = []
  if closestNeighborCount < 1:
      closestNeighborCount = len(importVertPositions)
  closestNeighborCountOverride = closestNeighborCount
  if filterByVertNormal:
      closestNeighborCountOverride = len(importVertNormals)
  distancesArr, indexArr = closestPointFunc(importVertPositions, savedVertPositions,
                                            numNeighbors=closestNeighborCountOverride)
  for i in range(len(importVertPositions)):
      ...
  return {"weights":newWeights, "blendWeights":newBlendWeights}
  \<close>
\<close>

type_synonym closestPointFunc = "point list \<Rightarrow> point list \<Rightarrow> int \<Rightarrow> error + knnResult"

definition resolveClosestPointFunc :: "closestPointFunc option \<Rightarrow> closestPointFunc" where
  "resolveClosestPointFunc closestPointFunc =
     (case closestPointFunc of None \<Rightarrow> closestPointBruteForce | Some f \<Rightarrow> f)"

definition closestNeighborsWeights ::
  "rounding \<Rightarrow> real list list \<Rightarrow> blendArg \<Rightarrow> point list \<Rightarrow> point list \<Rightarrow> MVector list
     \<Rightarrow> MVector list \<Rightarrow> int \<Rightarrow> real \<Rightarrow> closestPointFunc option \<Rightarrow> bool \<Rightarrow> real
     \<Rightarrow> error + fl resampled" where
  "closestNeighborsWeights rnd allSavedWeights allSavedBlendWeights importVertPositions
       savedVertPositions importVertNormals savedVertNormals closestNeighborCount
       closestNeighborDistMult closestPointFunc filterByVertNormal vertNormalTolerance =
     (if importVertNormals \<noteq> [] \<and> length importVertNormals \<noteq> length importVertPositions
      then Inl AssertionError
      else if filterByVertNormal \<and> importVertNormals = [] then Inl PyException
      else
        case checkBlendWeights allSavedWeights allSavedBlendWeights of
          Inl e \<Rightarrow> Inl e
        | Inr useBlendWeights \<Rightarrow>
          (let closestNeighborCount =
                 (if closestNeighborCount < 1 then int (length importVertPositions)
                  else closestNeighborCount);
               closestNeighborCountOverride =
                 (if filterByVertNormal then int (length importVertNormals)
                  else closestNeighborCount)
           in case resolveClosestPointFunc closestPointFunc importVertPositions
                     savedVertPositions closestNeighborCountOverride of
                Inl e \<Rightarrow> Inl e
              | Inr (distancesArr, indexArr) \<Rightarrow>
                 (let a = \<lparr>importVertNormals_of = importVertNormals,
                           savedVertNormals_of = savedVertNormals,
                           closestNeighborCount_of = closestNeighborCount,
                           filterByVertNormal_of = filterByVertNormal,
                           vertNormalTolerance_of = vertNormalTolerance,
                           distancesArr_of = distancesArr,
                           indexArr_of = indexArr\<rparr>
                  in case mapE (vertWeights rnd allSavedWeights allSavedBlendWeights
                                  useBlendWeights a closestNeighborDistMult)
                               [0 ..< length importVertPositions] of
                       Inl e \<Rightarrow> Inl e
                     | Inr perVert \<Rightarrow>
                         Inr \<lparr>weights = map fst perVert,
                              blendWeights = concat (map snd perVert)\<rparr>)))"

section \<open>core.closestPointWeights\<close>

text \<open>
  \<^verbatim>\<open>
  (the same three checks as closestNeighborsWeights)
  numNeighbors = 1
  if filterByVertNormal:
      numNeighbors = len(importVertPositions)
  distancesArr, indexArr = closestPointFunc(importVertPositions, savedVertPositions,
                                            numNeighbors=numNeighbors)
  for i in range(len(importVertPositions)):
      closestIndex = indexArr[i][0]
      if filterByVertNormal:
          closestNormalMatch = None
          for j in range(0, len(distancesArr[i])):
              checkIndex = indexArr[i][j]
              dot = importVertNormals[i] * savedVertNormals[checkIndex]
              if dot >= vertNormalTolerance:
                  closestNormalMatch = indexArr[i][j]
                  break
          if closestNormalMatch:
              closestIndex = closestNormalMatch
          # if we don't find a closestNormalMatch based on any avilable normal
          # just default to the closest point defined above.
      newWeights.append(allSavedWeights[int(closestIndex)])
      if useBlendWeights:
          newBlendWeights.append(allSavedBlendWeights[int(closestIndex)])
  return {"weights":newWeights, "blendWeights":newBlendWeights}
  \<close>
  \<^verbatim>\<open>if closestNormalMatch:\<close> tests the truth value of the match: \<^verbatim>\<open>None\<close> is false, and
  so is the index 0.
\<close>

fun normalMatchScan ::
  "MVector list \<Rightarrow> MVector list \<Rightarrow> real \<Rightarrow> nat list \<Rightarrow> nat \<Rightarrow> nat list \<Rightarrow> error + nat option" where
  "normalMatchScan importVertNormals savedVertNormals tol indexRow i [] = Inr None"
| "normalMatchScan importVertNormals savedVertNormals tol indexRow i (j # js) =
     (case py_get indexRow j of Inl e \<Rightarrow> Inl e | Inr checkIndex \<Rightarrow>
      case py_get importVertNormals i of Inl e \<Rightarrow> Inl e | Inr n \<Rightarrow>
      case py_get savedVertNormals checkIndex of Inl e \<Rightarrow> Inl e | Inr m \<Rightarrow>
        if dot n m \<ge> tol then Inr (Some checkIndex)
        else normalMatchScan importVertNormals savedVertNormals tol indexRow i js)"

fun truthy :: "nat option \<Rightarrow> bool" where
  "truthy None = False"
| "truthy (Some k) = (k \<noteq> 0)"

definition closestVert ::
  "MVector list \<Rightarrow> MVector list \<Rightarrow> bool \<Rightarrow> real \<Rightarrow> real list list \<Rightarrow> nat list list \<Rightarrow> nat
     \<Rightarrow> error + nat" where
  "closestVert importVertNormals savedVertNormals filterByVertNormal vertNormalTolerance
       distancesArr indexArr i =
     (case py_get indexArr i of Inl e \<Rightarrow> Inl e | Inr indexRow \<Rightarrow>
      case py_get indexRow 0 of Inl e \<Rightarrow> Inl e | Inr closestIndex \<Rightarrow>
        if filterByVertNormal then
          (case py_get distancesArr i of Inl e \<Rightarrow> Inl e | Inr distRow \<Rightarrow>
           case normalMatchScan importVertNormals savedVertNormals vertNormalTolerance
                  indexRow i [0 ..< length distRow] of
             Inl e \<Rightarrow> Inl e
           | Inr closestNormalMatch \<Rightarrow>
               if truthy closestNormalMatch then
                 (case closestNormalMatch of
                    None \<Rightarrow> Inr closestIndex
                  | Some m \<Rightarrow> Inr m)
               else Inr closestIndex)
        else Inr closestIndex)"

definition pointWeights ::
  "real list list \<Rightarrow> blendArg \<Rightarrow> bool \<Rightarrow> MVector list \<Rightarrow> MVector list \<Rightarrow> bool \<Rightarrow> real
     \<Rightarrow> real list list \<Rightarrow> nat list list \<Rightarrow> nat \<Rightarrow> error + (real list \<times> blendEntry list)" where
  "pointWeights allSavedWeights allSavedBlendWeights useBlendWeights importVertNormals
       savedVertNormals filterByVertNormal vertNormalTolerance distancesArr indexArr i =
     (case closestVert importVertNormals savedVertNormals filterByVertNormal
             vertNormalTolerance distancesArr indexArr i of
        Inl e \<Rightarrow> Inl e
      | Inr closestIndex \<Rightarrow>
         (case py_get allSavedWeights closestIndex of
            Inl e \<Rightarrow> Inl e
          | Inr row \<Rightarrow>
              if useBlendWeights then
                (case blend_get allSavedBlendWeights closestIndex of
                   Inl e \<Rightarrow> Inl e
                 | Inr b \<Rightarrow> Inr (row, [BlendScalar b]))
              else Inr (row, [])))"

definition closestPointWeights ::
  "real list list \<Rightarrow> blendArg \<Rightarrow> point list \<Rightarrow> point list \<Rightarrow> MVector list \<Rightarrow> MVector list
     \<Rightarrow> closestPointFunc option \<Rightarrow> bool \<Rightarrow> real \<Rightarrow> error + real resampled" where
  "closestPointWeights allSavedWeights allSavedBlendWeights importVertPositions
       savedVertPositions importVertNormals savedVertNormals closestPointFunc
       filterByVertNormal vertNormalTolerance =
     (if importVertNormals \<noteq> [] \<and> length importVertNormals \<noteq> length importVertPositions
      then Inl AssertionError
      else if filterByVertNormal \<and> importVertNormals = [] then Inl PyException
      else
        case checkBlendWeights allSavedWeights allSavedBlendWeights of
          Inl e \<Rightarrow> Inl e
        | Inr useBlendWeights \<Rightarrow>
          (let numNeighbors = (if filterByVertNormal then int (length importVertPositions)
                               else 1)
           in case resolveClosestPointFunc closestPointFunc importVertPositions
                     savedVertPositions numNeighbors of
                Inl e \<Rightarrow> Inl e
              | Inr (distancesArr, indexArr) \<Rightarrow>
                 (case mapE (pointWeights allSavedWeights allSavedBlendWeights useBlendWeights
                               importVertNormals savedVertNormals filterByVertNormal
                               vertNormalTolerance distancesArr indexArr)
                            [0 ..< length importVertPositions] of
                    Inl e \<Rightarrow> Inl e
                  | Inr perVert \<Rightarrow>
                      Inr \<lparr>weights = map fst perVert,
                           blendWeights = concat (map snd perVert)\<rparr>)))"

section \<open>Notions used to state the properties\<close>


text \<open>The entry of a transposed row under the target label \<open>t\<close>.\<close>

definition pickColumn :: "real list \<Rightarrow> string list \<Rightarrow> string \<Rightarrow> real" where
  "pickColumn row src t = (if t \<in> set src then row ! index_of src t else 0)"







text \<open>
  The nearest candidate of every target point lies within the search radius that is
  computed from it: the comparison \<^verbatim>\<open>checkDist > searchDist\<close> of the scan is false for it.
\<close>

definition withinOwnRadius :: "rounding \<Rightarrow> real \<Rightarrow> real list list \<Rightarrow> bool" where
  "withinOwnRadius rnd closestNeighborDistMult distancesArr \<longleftrightarrow>
     list_all (\<lambda>row. row = [] \<or>
                 \<not> fgt (Fin (hd row)) (fmul rnd (Fin (hd row)) (Fin closestNeighborDistMult)))
       distancesArr"

text \<open>
  Two properties of a rounding. From \<open>lo\<close> upwards it returns a float that is again at
  least \<open>lo\<close>, or the positive infinity: round-to-nearest does, for every positive
  \<open>lo\<close> of the format. And the standard model of floating-point arithmetic: a finite
  result with a relative error of at most \<open>u\<close>, which a format satisfies as long as
  nothing overflows or underflows.
\<close>

definition roundsPositive :: "real \<Rightarrow> rounding \<Rightarrow> bool" where
  "roundsPositive lo rnd \<longleftrightarrow>
     0 < lo \<and> (\<forall>x. lo \<le> x \<longrightarrow> rnd x = PInf \<or> (\<exists>y. lo \<le> y \<and> rnd x = Fin y))"






section \<open>Properties of the helpers\<close>

lemma mapE_Inr_iff:
  "mapE f xs = Inr ys \<longleftrightarrow>
     length ys = length xs \<and> (\<forall>i<length xs. f (xs ! i) = Inr (ys ! i))"
proof (induction xs arbitrary: ys)
  case Nil
  then show ?case by auto
next
  case (Cons x xs)
  show ?case
  proof (cases ys)
    case Nil
    then show ?thesis by (auto split: sum.splits)
  next
    case (Cons y ys')
    then show ?thesis using Cons.IH[of ys']
      by (auto split: sum.splits simp: nth_Cons split: nat.splits)
  qed
qed

lemma mapE_total:
  "(\<And>x. x \<in> set xs \<Longrightarrow> f x = Inr (g x)) \<Longrightarrow> mapE f xs = Inr (map g xs)"
  by (induction xs) auto

lemma index_of_less: "x \<in> set xs \<Longrightarrow> index_of xs x < length xs"
  by (induction xs) auto

lemma index_of_distinct: "distinct xs \<Longrightarrow> i < length xs \<Longrightarrow> index_of xs (xs ! i) = i"
  by (induction xs arbitrary: i) (auto simp: nth_Cons split: nat.splits)


section \<open>transposeWeights\<close>

text \<open>
  Claim C9. Whenever some source influence label is absent from the target label list,
  \<open>transposeWeights\<close> fails: it returns an error and no rows.
\<close>

theorem transposeWeights_missing_label_fails:
  assumes "\<exists>name \<in> set skinChunkInfNames. name \<notin> set skinClusterInfNames"
  shows "\<exists>e. transposeWeights skinChunkWeights skinChunkInfNames skinClusterInfNames = Inl e"
proof -
  from assms have "filter (\<lambda>name. name \<notin> set skinClusterInfNames) skinChunkInfNames \<noteq> []"
    by (auto simp: filter_empty_conv)
  then show ?thesis
    by (simp add: transposeWeights_def Let_def split: list.splits)
qed

theorem transposeWeights_missing_label_fails_witness:
  "(\<exists>name \<in> set [''A'', ''Z'']. name \<notin> set [''A'', ''B''])
   \<and> transposeWeights [[3/10, 7/10]] [''A'', ''Z''] [''A'', ''B''] = Inl AssertionError"
  using transposeWeights_missing_label_fails[of "[''A'', ''Z'']" "[''A'', ''B'']" "[[3/10, 7/10]]"]
  by (simp add: transposeWeights_def)

lemma transposeEntry_total:
  assumes "length row = length src"
  shows "transposeEntry row src t = Inr (pickColumn row src t)"
  using assms index_of_less[of t src]
  by (simp add: transposeEntry_def py_index_def py_get_def pickColumn_def)

lemma transposeRow_total:
  assumes "length row = length src"
  shows "transposeRow src tgt row = Inr (map (pickColumn row src) tgt)"
  unfolding transposeRow_def
  by (rule mapE_total) (simp add: transposeEntry_total[OF assms])

lemma sum_pickColumn:
  assumes len: "length row = length src" and ds: "distinct src" and dt: "distinct tgt"
    and sub: "set src \<subseteq> set tgt"
  shows "sum_list (map (pickColumn row src) tgt) = sum_list row"
proof -
  have "sum_list (map (pickColumn row src) tgt) = sum (pickColumn row src) (set tgt)"
    using dt by (simp add: sum_list_distinct_conv_sum_set)
  also have "\<dots> = sum (pickColumn row src) (set src)"
    by (rule sum.mono_neutral_right) (use sub in \<open>auto simp: pickColumn_def\<close>)
  also have "\<dots> = sum_list (map (pickColumn row src) src)"
    using ds by (simp add: sum_list_distinct_conv_sum_set)
  also have "map (pickColumn row src) src = row"
  proof (rule nth_equalityI)
    show "length (map (pickColumn row src) src) = length row" using len by simp
  next
    fix i assume "i < length (map (pickColumn row src) src)"
    then have i: "i < length src" by simp
    then show "map (pickColumn row src) src ! i = row ! i"
      using index_of_distinct[OF ds i] by (simp add: pickColumn_def)
  qed
  finally show ?thesis .
qed

text \<open>
  Claim C10. When the checked precondition holds (there is a first row, every row has
  one weight per source label, every source label is a target label) and the labels
  are unique within each list, \<open>transposeWeights\<close> returns one row per input row, each
  as long as the target label list and with the same sum as the input row.
\<close>

theorem transposeWeights_preserves_mass:
  assumes rows: "skinChunkWeights \<noteq> []"
    and rect: "\<forall>row \<in> set skinChunkWeights. length row = length skinChunkInfNames"
    and ds: "distinct skinChunkInfNames" and dt: "distinct skinClusterInfNames"
    and sub: "set skinChunkInfNames \<subseteq> set skinClusterInfNames"
  shows "\<exists>ret. transposeWeights skinChunkWeights skinChunkInfNames skinClusterInfNames = Inr ret
           \<and> length ret = length skinChunkWeights
           \<and> (\<forall>i < length skinChunkWeights.
                 length (ret ! i) = length skinClusterInfNames
               \<and> sum_list (ret ! i) = sum_list (skinChunkWeights ! i))"
proof -
  let ?g = "\<lambda>row. map (pickColumn row skinChunkInfNames) skinClusterInfNames"
  have m: "mapE (transposeRow skinChunkInfNames skinClusterInfNames) skinChunkWeights
             = Inr (map ?g skinChunkWeights)"
    by (rule mapE_total) (use rect in \<open>simp add: transposeRow_total\<close>)
  have f1: "filter (\<lambda>name. name \<notin> set skinClusterInfNames) skinChunkInfNames = []"
    using sub by (auto simp: filter_empty_conv)
  have f2: "filter (\<lambda>name. name \<notin> set skinChunkInfNames) skinChunkInfNames = []"
    by (auto simp: filter_empty_conv)
  obtain w0 ws where w: "skinChunkWeights = w0 # ws" using rows by (cases skinChunkWeights) auto
  have l0: "length w0 = length skinChunkInfNames" using rect w by simp
  have eq: "transposeWeights skinChunkWeights skinChunkInfNames skinClusterInfNames
              = Inr (map ?g skinChunkWeights)"
    unfolding transposeWeights_def Let_def f1 f2 using m l0 w by simp
  have "\<forall>i < length skinChunkWeights.
          length (map ?g skinChunkWeights ! i) = length skinClusterInfNames
        \<and> sum_list (map ?g skinChunkWeights ! i) = sum_list (skinChunkWeights ! i)"
    using rect ds dt sub by (simp add: sum_pickColumn)
  with eq show ?thesis by simp
qed

theorem transposeWeights_preserves_mass_witness:
  "[[3/10, 7/10]] \<noteq> ([]::real list list)
   \<and> list_all (\<lambda>row. length row = length [''A'', ''B'']) [[3/10, 7/10::real]]
   \<and> distinct [''A'', ''B''] \<and> distinct [''B'', ''A'', ''C'']
   \<and> set [''A'', ''B''] \<subseteq> set [''B'', ''A'', ''C'']
   \<and> transposeWeights [[3/10, 7/10]] [''A'', ''B''] [''B'', ''A'', ''C''] = Inr [[7/10, 3/10, 0]]
   \<and> sum_list [7/10, 3/10, 0 :: real] = sum_list [3/10, 7/10]"
  using transposeWeights_preserves_mass[of "[[3/10, 7/10]]" "[''A'', ''B'']" "[''B'', ''A'', ''C'']"]
  by (simp add: transposeWeights_def transposeRow_def transposeEntry_def py_index_def py_get_def)

section \<open>getVertNeighborSamples\<close>

lemma truncDiv_pos: "0 < b \<Longrightarrow> 0 \<le> a \<Longrightarrow> truncDiv a b = Inr (a div b)"
  by (cases "a = 0") (auto simp: truncDiv_def)

lemma sampleStep_regular:
  assumes "0 < neighborSamples" and "neighborSamples \<le> int totalMeshVerts"
  shows "sampleStep totalMeshVerts neighborSamples = Inr (int totalMeshVerts div neighborSamples)"
    and "1 \<le> int totalMeshVerts div neighborSamples"
proof -
  show ge: "1 \<le> int totalMeshVerts div neighborSamples"
    using assms zdiv_mono1[of neighborSamples "int totalMeshVerts" neighborSamples] by simp
  then show "sampleStep totalMeshVerts neighborSamples = Inr (int totalMeshVerts div neighborSamples)"
    using assms by (simp add: sampleStep_def truncDiv_pos)
qed

lemma sampleStep_oversampled:
  assumes "int totalMeshVerts < neighborSamples"
  shows "sampleStep totalMeshVerts neighborSamples = Inr (int totalMeshVerts - 1)"
  using assms by (simp add: sampleStep_def truncDiv_pos div_pos_pos_trivial)

lemma strided_upt_filter:
  assumes s: "0 < (s::nat)"
  shows "map (\<lambda>k. k * s) [0 ..< (n + s - 1) div s] = filter (\<lambda>i. i mod s = 0) [0 ..< n]"
proof (rule sorted_distinct_set_unique)
  have mono: "strict_mono (\<lambda>k. k * s)" using s by (simp add: strict_mono_def)
  show "sorted (map (\<lambda>k. k * s) [0 ..< (n + s - 1) div s])"
    by (simp add: sorted_map sorted_wrt_iff_nth_less s)
  show "distinct (map (\<lambda>k. k * s) [0 ..< (n + s - 1) div s])"
    using s by (simp add: distinct_map inj_on_def)
  show "sorted (filter (\<lambda>i. i mod s = 0) [0 ..< n])" by (simp add: sorted_wrt_filter)
  show "distinct (filter (\<lambda>i. i mod s = 0) [0 ..< n])" by simp
  show "set (map (\<lambda>k. k * s) [0 ..< (n + s - 1) div s]) = set (filter (\<lambda>i. i mod s = 0) [0 ..< n])"
  proof (intro set_eqI iffI)
    fix i assume "i \<in> set (map (\<lambda>k. k * s) [0 ..< (n + s - 1) div s])"
    then have "i \<in> (\<lambda>k. k * s) ` {0 ..< (n + s - 1) div s}" by simp
    then obtain k where k: "i = k * s" "k < (n + s - 1) div s"
      by (elim imageE) (use that in force)
    then have "Suc k \<le> (n + s - 1) div s" by simp
    then have "Suc k * s \<le> n + s - 1"
      using s less_eq_div_iff_mult_less_eq[of s "Suc k" "n + s - 1"] by blast
    then have "k * s < n" using s by simp
    then show "i \<in> set (filter (\<lambda>i. i mod s = 0) [0 ..< n])" using k s by auto
  next
    fix i assume "i \<in> set (filter (\<lambda>i. i mod s = 0) [0 ..< n])"
    then have i: "i < n" "i mod s = 0" by auto
    then have "s dvd i" by (simp add: dvd_eq_mod_eq_0)
    then obtain k where k: "i = k * s" by (auto simp: dvd_def mult.commute)
    have "Suc k * s \<le> n + s - 1" using i(1) k s by simp
    then have "Suc k \<le> (n + s - 1) div s"
      using s by (simp add: less_eq_div_iff_mult_less_eq del: mult_Suc)
    then have "k < (n + s - 1) div s" by simp
    then show "i \<in> set (map (\<lambda>k. k * s) [0 ..< (n + s - 1) div s])" using k by auto
  qed
qed

lemma py_range0_strided:
  assumes "0 < step"
  shows "py_range0 stop step = Inr (filter (\<lambda>i. i mod nat step = 0) [0 ..< stop])"
  using assms strided_upt_filter[of "nat step" stop] by (simp add: py_range0_def)

lemma py_range0_one: "py_range0 n 1 = Inr [0 ..< n]"
  by (simp add: py_range0_def map_idI)

lemma py_range0_last:
  assumes "2 \<le> n"
  shows "py_range0 n (int n - 1) = Inr [0, n - 1]"
proof -
  obtain m where n: "n = Suc (Suc m)"
    using assms by (metis One_nat_def Suc_1 Suc_le_D Suc_le_mono)
  have s: "nat (int n - 1) = Suc m" using n by simp
  have "n + Suc m - 1 = 2 * Suc m" using n by simp
  moreover have "2 * Suc m div Suc m = 2"
    using nonzero_mult_div_cancel_right[of "Suc m" 2] by blast
  ultimately have d: "(n + Suc m - 1) div Suc m = 2" by metis
  show ?thesis
    unfolding py_range0_def s using n d
    by (auto simp: upt_rec numeral_2_eq_2)
qed

text \<open>
  Claim C3, as amended. The keys of the returned dictionary are the sampled indices. For
  a positive \<open>sampleCount\<close> not above \<open>totalPoints\<close> the stride is
  \<open>totalPoints div sampleCount\<close>, which is at least 1, and the sampled indices are, in
  ascending order, exactly the point indices that are multiples of the stride; when \<open>sampleCount\<close> equals
  \<open>totalPoints\<close> the stride is 1 and every point index is sampled. When \<open>sampleCount\<close>
  exceeds \<open>totalPoints\<close> (and the mesh has at least two points) the quotient is 0 and the
  code replaces it by \<open>totalPoints - 1\<close>, so only the first and the last index are sampled.
\<close>

theorem sampling_stride:
  "map_sum id (map fst) (getVertNeighborSamples getConnectedVertIDs totalMeshVerts neighborSamples)
     = sampleIndices totalMeshVerts neighborSamples
 \<and> (0 < neighborSamples \<and> neighborSamples \<le> int totalMeshVerts \<longrightarrow>
      sampleStep totalMeshVerts neighborSamples = Inr (int totalMeshVerts div neighborSamples)
    \<and> 1 \<le> int totalMeshVerts div neighborSamples
    \<and> sampleIndices totalMeshVerts neighborSamples
        = Inr (filter (\<lambda>i. i mod nat (int totalMeshVerts div neighborSamples) = 0)
                 [0 ..< totalMeshVerts]))
 \<and> (0 < totalMeshVerts \<and> neighborSamples = int totalMeshVerts \<longrightarrow>
      sampleIndices totalMeshVerts neighborSamples = Inr [0 ..< totalMeshVerts])
 \<and> (2 \<le> totalMeshVerts \<and> int totalMeshVerts < neighborSamples \<longrightarrow>
      sampleStep totalMeshVerts neighborSamples = Inr (int totalMeshVerts - 1)
    \<and> sampleIndices totalMeshVerts neighborSamples = Inr [0, totalMeshVerts - 1])"
proof (intro conjI impI)
  show "map_sum id (map fst)
          (getVertNeighborSamples getConnectedVertIDs totalMeshVerts neighborSamples)
        = sampleIndices totalMeshVerts neighborSamples"
    by (simp add: getVertNeighborSamples_def comp_def split: sum.splits)
next
  assume a: "0 < neighborSamples \<and> neighborSamples \<le> int totalMeshVerts"
  then show st: "sampleStep totalMeshVerts neighborSamples
                   = Inr (int totalMeshVerts div neighborSamples)"
    and ge: "1 \<le> int totalMeshVerts div neighborSamples"
    using sampleStep_regular by auto
  show "sampleIndices totalMeshVerts neighborSamples
        = Inr (filter (\<lambda>i. i mod nat (int totalMeshVerts div neighborSamples) = 0)
                 [0 ..< totalMeshVerts])"
    using st ge by (simp add: sampleIndices_def py_range0_strided)
next
  assume a: "0 < totalMeshVerts \<and> neighborSamples = int totalMeshVerts"
  then have "sampleStep totalMeshVerts neighborSamples = Inr 1"
    using sampleStep_regular(1)[of neighborSamples totalMeshVerts] by simp
  then show "sampleIndices totalMeshVerts neighborSamples = Inr [0 ..< totalMeshVerts]"
    by (simp add: sampleIndices_def py_range0_one)
next
  assume a: "2 \<le> totalMeshVerts \<and> int totalMeshVerts < neighborSamples"
  then show s: "sampleStep totalMeshVerts neighborSamples = Inr (int totalMeshVerts - 1)"
    using sampleStep_oversampled by simp
  show "sampleIndices totalMeshVerts neighborSamples = Inr [0, totalMeshVerts - 1]"
    using a s py_range0_last[of totalMeshVerts]
    by (auto simp: sampleIndices_def)
qed

theorem sampling_stride_witness:
  "sampleStep 10 3 = Inr 3 \<and> sampleIndices 10 3 = Inr [0, 3, 6, 9]
   \<and> sampleIndices 4 4 = Inr [0, 1, 2, 3] \<and> sampleIndices 5 10 = Inr [0, 4]"
  using sampling_stride[where neighborSamples = 3 and totalMeshVerts = 10]
    sampling_stride[where neighborSamples = 4 and totalMeshVerts = 4]
    sampling_stride[where neighborSamples = 10 and totalMeshVerts = 5]
  by (simp add: upt_rec)

text \<open>
  Claim C3 as stated fails when \<open>sampleCount\<close> exceeds \<open>totalPoints\<close>: with 5 points and
  10 samples the stride is 4, not 1, and the indices 1, 2 and 3 are not sampled.
\<close>

theorem sampling_oversampled_counterexample:
  "sampleStep 5 10 = Inr 4 \<and> sampleIndices 5 10 = Inr [0, 4]
   \<and> sampleIndices 5 10 \<noteq> Inr [0, 1, 2, 3, 4]"
  by (simp add: sampleIndices_def sampleStep_def truncDiv_def py_range0_def upt_rec)

section \<open>The nearest-neighbour functions\<close>

lemmas knn_eval = closestPointBruteForce_def bruteForceRow_def enumerate_eq_zip upt_rec
  sort_key_simps insort_key.simps Let_def





section \<open>The blend-weight test of both policies\<close>

lemmas fl_eval = exact_def fsub_def fgt_def signedInf_def py_index_def

lemmas cnw_eval = closestNeighborsWeights_def resolveClosestPointFunc_def checkBlendWeights_def
  vertWeights_def vertPool_def rejectedFallback_def blendPool_def poolDistances_def
  emptyPool_def py_get_def normalizeToOne_def scalar_div_def fixResidual_def
  np_sum_axis0_def scaleRows_def py_slice_to_def fl_eval

lemmas cpw_eval = closestPointWeights_def resolveClosestPointFunc_def checkBlendWeights_def
  pointWeights_def closestVert_def py_get_def

lemma checkBlendWeights_array: "checkBlendWeights allSavedWeights (FloatArray bw) = Inr False"
  by (simp add: checkBlendWeights_def)

lemma checkBlendWeights_never_True: "checkBlendWeights allSavedWeights b \<noteq> Inr True"
  by (cases b) (simp_all add: checkBlendWeights_def)

lemma blendPool_no_blend:
  "blendPool rnd allSavedWeights False is ds = Inr (row, bl) \<Longrightarrow> bl = []"
  by (auto simp: blendPool_def Let_def split: sum.splits if_splits prod.splits)

lemma vertWeights_no_blend:
  "vertWeights rnd allSavedWeights b False a m i = Inr (row, bl) \<Longrightarrow> bl = []"
  by (auto simp: vertWeights_def split: sum.splits if_splits prod.splits dest: blendPool_no_blend)

lemma mapE_no_blend:
  assumes "mapE f xs = Inr perVert" and "\<And>x row bl. f x = Inr (row, bl) \<Longrightarrow> bl = []"
  shows "concat (map snd perVert) = []"
proof -
  have "\<forall>i<length xs. f (xs ! i) = Inr (perVert ! i)" and "length perVert = length xs"
    using assms(1) by (simp_all add: mapE_Inr_iff)
  then have "\<forall>i<length perVert. snd (perVert ! i) = []"
    using assms(2) by (metis prod.collapse)
  then have "\<forall>p \<in> set perVert. snd p = []"
    by (metis in_set_conv_nth)
  then show ?thesis by simp
qed

text \<open>
  Claim C1 is not met by the code. It asks for one blend-weight entry per target point
  when a blend-weight array is supplied. The test that should recognise the array
  compares against the class of builtin functions, so \<open>useBlendWeights\<close> stays false for
  every array, and whenever the function returns, its \<open>blendWeights\<close> list is empty.
\<close>

theorem closestNeighborsWeights_blendWeights_empty:
  assumes "closestNeighborsWeights rnd allSavedWeights (FloatArray bw) importVertPositions
             savedVertPositions importVertNormals savedVertNormals closestNeighborCount
             closestNeighborDistMult closestPointFunc filterByVertNormal vertNormalTolerance
           = Inr res"
  shows "blendWeights res = []"
proof -
  from assms obtain a perVert where
      m: "mapE (vertWeights rnd allSavedWeights (FloatArray bw) False a closestNeighborDistMult)
            [0 ..< length importVertPositions] = Inr perVert"
    and r: "res = \<lparr>weights = map fst perVert, blendWeights = concat (map snd perVert)\<rparr>"
    unfolding closestNeighborsWeights_def checkBlendWeights_array Let_def
    by (auto split: if_splits sum.splits prod.splits)
  have "concat (map snd perVert) = []"
    using m by (rule mapE_no_blend) (rule vertWeights_no_blend)
  then show ?thesis using r by simp
qed

theorem closestNeighborsWeights_blendWeights_empty_witness:
  "closestNeighborsWeights exact [[1, 0], [0, 1]] (FloatArray [1/4, 3/4]) [(0,0,0)]
      [(1,0,0), (-1,0,0)] [] [] 3 2 None False 0
     = Inr \<lparr>weights = [[Fin (1/2), Fin (1/2)]], blendWeights = []\<rparr>
   \<and> blendWeights \<lparr>weights = [[Fin (1/2), Fin (1/2)]], blendWeights = []\<rparr> = []"
  using closestNeighborsWeights_blendWeights_empty[of exact "[[1, 0], [0, 1]]" "[1/4, 3/4]"
      "[(0,0,0)]" "[(1,0,0), (-1,0,0)]" "[]" "[]" 3 2 None False 0
      "\<lparr>weights = [[Fin (1/2), Fin (1/2)]], blendWeights = []\<rparr>"]
  by (simp add: knn_eval cnw_eval)

text \<open>
  Claim C5 is met for the missing normals and not met for the blend-weight length. With
  two weight rows and a blend-weight array of one entry both policies return a result
  instead of failing, for the reason given under C1; with normal filtering requested
  and no target normals both fail. The arithmetic on this input is exact in any format.
\<close>

theorem blendWeights_length_not_checked:
  "closestNeighborsWeights exact [[1, 0], [0, 1]] (FloatArray [1/2]) [(0,0,0)]
      [(0,0,0), (1,0,0)] [] [] 3 2 None False 0
     = Inr \<lparr>weights = [[Fin 1, Fin 0]], blendWeights = []\<rparr>
   \<and> closestPointWeights [[1, 0], [0, 1]] (FloatArray [1/2]) [(0,0,0)]
      [(0,0,0), (1,0,0)] [] [] None False 0
     = Inr \<lparr>weights = [[1, 0]], blendWeights = []\<rparr>
   \<and> closestNeighborsWeights exact [[1, 0], [0, 1]] (FloatArray []) [(0,0,0)]
      [(0,0,0), (1,0,0)] [] [] 3 2 None True 0 = Inl PyException
   \<and> closestPointWeights [[1, 0], [0, 1]] (FloatArray []) [(0,0,0)]
      [(0,0,0), (1,0,0)] [] [] None True 0 = Inl PyException"
  by (simp add: knn_eval cnw_eval cpw_eval)

section \<open>closestPointWeights with normal filtering\<close>

text \<open>
  Claim C4 is not met by the code when the first candidate that passes the normal test
  is source point 0 and is not the nearest. Two target points at \<open>(1,0,0)\<close>, source
  point 0 at the origin with a matching normal, source point 1 at \<open>(1,0,0)\<close> with the
  opposite normal: the candidates in ascending distance are 1 and 0, candidate 1 fails
  the test and candidate 0 passes it, yet the truth test on the match 0 fails and the
  row of source point 1 is returned.
\<close>

theorem closestPointWeights_index_zero_match_dropped:
  "closestPointWeights [[1, 0], [0, 1]] (FloatArray []) [(1,0,0), (1,0,0)] [(0,0,0), (1,0,0)]
     [(0,0,1), (0,0,1)] [(0,0,1), (0,0,-1)] None True 0
   = Inr \<lparr>weights = [[0, 1], [0, 1]], blendWeights = []\<rparr>
   \<and> closestPointBruteForce [(1,0,0), (1,0,0)] [(0,0,0), (1,0,0)] 2
       = Inr ([[0, 1], [0, 1]], [[1, 0], [1, 0]])
   \<and> dot (0,0,1) (0,0,-1) < 0 \<and> dot (0,0,1) (0,0,1) \<ge> 0"
  by (simp add: knn_eval cpw_eval)

section \<open>normalizeToOne returns\<close>












section \<open>The candidate scan and the blend of a pool return\<close>












section \<open>closestNeighborsWeights returns one row per target point\<close>






lemma withinOwnRadius_exact:
  assumes "1 \<le> mult" and "\<forall>row \<in> set D. \<forall>d \<in> set row. 0 \<le> d"
  shows "withinOwnRadius exact mult D"
  unfolding withinOwnRadius_def list_all_iff
proof (intro ballI)
  fix row assume r: "row \<in> set D"
  show "row = [] \<or> \<not> fgt (Fin (hd row)) (fmul exact (Fin (hd row)) (Fin mult))"
  proof (cases row)
    case Nil then show ?thesis by simp
  next
    case (Cons d ds)
    then have "0 \<le> d" using assms(2) r by auto
    then have "d \<le> d * mult" using assms(1) by (simp add: mult_le_cancel_left1)
    then show ?thesis using Cons by (simp add: fgt_def exact_def)
  qed
qed

lemma roundsPositive_exact: "0 < lo \<Longrightarrow> roundsPositive lo exact"
  by (simp add: roundsPositive_def exact_def)




section \<open>The blend of a pool of coincident points\<close>















section \<open>The rounding errors of normalizeToOne\<close>
























end
